theory Spec2Isabelle
  imports Main "HOL-Library.Sublist"
begin

section \<open>Point-name extraction from table text (extract\_point\_names.py)\<close>

text \<open>
  The parsing core of the script is embedded function by function:
  \<open>clean_ocr_artifacts\<close>, \<open>is_valid_point_name\<close>,
  \<open>extract_point_name_from_section\<close> and \<open>extract_point_names_from_text\<close>.
  A Python \<open>str\<close> is modelled as a \<open>string\<close>: a list of 8-bit characters, read as
  the code points U+0000 to U+00FF (Latin-1), one character per code point. The character
  classes (\<open>isspace\<close>, \<open>isdigit\<close>, \<open>isalpha\<close>, \<open>isupper\<close>, the classes of \<open>re\<close>) and
  the uppercase mapping are Python's on exactly these code points. The uppercase form of
  such a text can hold two code points beyond U+00FF, so it has a type of its own.
  An operation of the source that can raise (indexing a list or a string) returns a
  value of \<open>error + 'a\<close>, so that an exception is a result \<open>Inl e\<close> of the model.
\<close>

subsection \<open>Character classes and string operations of the source language\<close>

datatype error = IndexError

definition py_index :: "'a list \<Rightarrow> nat \<Rightarrow> error + 'a" where
  \<comment> \<open>\<open>xs[i]\<close> for a non-negative index\<close>
  "py_index xs i = (if i < length xs then Inr (xs ! i) else Inl IndexError)"

definition isspace :: "char \<Rightarrow> bool" where
  \<comment> \<open>\<open>str.isspace\<close>, the whitespace of \<open>strip\<close> and \<open>split\<close>, and the class \<open>\s\<close> of
      \<open>re\<close>: tab, LF, VT, FF, CR, FS, GS, RS, US, space, NEL (U+0085), NBSP (U+00A0)\<close>
  "isspace c = (c \<in> set [CHR 0x09, CHR 0x0A, CHR 0x0B, CHR 0x0C, CHR 0x0D,
                         CHR 0x1C, CHR 0x1D, CHR 0x1E, CHR 0x1F, CHR 0x20,
                         CHR 0x85, CHR 0xA0])"

definition re_digit :: "char \<Rightarrow> bool" where
  \<comment> \<open>the class \<open>\d\<close> of \<open>re\<close>: the decimal digits (category Nd)\<close>
  "re_digit c = (c \<in> set ''0123456789'')"

definition isdigit :: "char \<Rightarrow> bool" where
  \<comment> \<open>\<open>str.isdigit\<close> on one character: the decimal digits and the superscripts
      two, three (U+00B2, U+00B3) and one (U+00B9)\<close>
  "isdigit c = (c \<in> set ''0123456789'' \<or> c \<in> set [CHR 0xB2, CHR 0xB3, CHR 0xB9])"

definition ascii_lowercase :: string where
  "ascii_lowercase = ''abcdefghijklmnopqrstuvwxyz''"

definition ascii_uppercase :: string where
  "ascii_uppercase = ''ABCDEFGHIJKLMNOPQRSTUVWXYZ''"

definition latin1_lowercase :: string where
  \<comment> \<open>U+00E0 to U+00F6 and U+00F8 to U+00FE: the lowercase letters whose capital is 32
      code points below\<close>
  "latin1_lowercase =
     [CHR 0xE0, CHR 0xE1, CHR 0xE2, CHR 0xE3, CHR 0xE4, CHR 0xE5, CHR 0xE6, CHR 0xE7,
      CHR 0xE8, CHR 0xE9, CHR 0xEA, CHR 0xEB, CHR 0xEC, CHR 0xED, CHR 0xEE, CHR 0xEF,
      CHR 0xF0, CHR 0xF1, CHR 0xF2, CHR 0xF3, CHR 0xF4, CHR 0xF5, CHR 0xF6, CHR 0xF8,
      CHR 0xF9, CHR 0xFA, CHR 0xFB, CHR 0xFC, CHR 0xFD, CHR 0xFE]"

definition latin1_uppercase :: string where
  \<comment> \<open>U+00C0 to U+00D6 and U+00D8 to U+00DE, in the order of \<open>latin1_lowercase\<close>\<close>
  "latin1_uppercase =
     [CHR 0xC0, CHR 0xC1, CHR 0xC2, CHR 0xC3, CHR 0xC4, CHR 0xC5, CHR 0xC6, CHR 0xC7,
      CHR 0xC8, CHR 0xC9, CHR 0xCA, CHR 0xCB, CHR 0xCC, CHR 0xCD, CHR 0xCE, CHR 0xCF,
      CHR 0xD0, CHR 0xD1, CHR 0xD2, CHR 0xD3, CHR 0xD4, CHR 0xD5, CHR 0xD6, CHR 0xD8,
      CHR 0xD9, CHR 0xDA, CHR 0xDB, CHR 0xDC, CHR 0xDD, CHR 0xDE]"

definition isupper :: "char \<Rightarrow> bool" where
  \<comment> \<open>\<open>str.isupper\<close> on one character\<close>
  "isupper c = (c \<in> set ascii_uppercase \<or> c \<in> set latin1_uppercase)"

definition isalpha :: "char \<Rightarrow> bool" where
  \<comment> \<open>\<open>str.isalpha\<close> on one character; the letters without a capital in Latin-1 are
      the ordinal indicators (U+00AA, U+00BA), the micro sign (U+00B5), the sharp s
      (U+00DF) and y with diaeresis (U+00FF)\<close>
  "isalpha c = (c \<in> set ascii_lowercase \<or> c \<in> set ascii_uppercase \<or>
                c \<in> set latin1_lowercase \<or> c \<in> set latin1_uppercase \<or>
                c \<in> set [CHR 0xAA, CHR 0xB5, CHR 0xBA, CHR 0xDF, CHR 0xFF])"

datatype uchar =
    Latin1 char
  | Capital_Mu \<comment> \<open>U+039C, the uppercase of the micro sign\<close>
  | Capital_Y_Diaeresis \<comment> \<open>U+0178, the uppercase of y with diaeresis\<close>

type_synonym ustring = "uchar list"

definition ustr :: "string \<Rightarrow> ustring" where
  \<comment> \<open>a text of the source read among the code points of uppercase forms\<close>
  "ustr s = map Latin1 s"

definition upper_char :: "char \<Rightarrow> ustring" where
  \<comment> \<open>the uppercase form of one character: the sharp s becomes SS\<close>
  "upper_char c =
     (if c = CHR 0xDF then [Latin1 (CHR ''S''), Latin1 (CHR ''S'')]
      else if c = CHR 0xB5 then [Capital_Mu]
      else if c = CHR 0xFF then [Capital_Y_Diaeresis]
      else case map_of (zip (ascii_lowercase @ latin1_lowercase)
                            (ascii_uppercase @ latin1_uppercase)) c of
             Some u \<Rightarrow> [Latin1 u]
           | None \<Rightarrow> [Latin1 c])"

definition str_upper :: "string \<Rightarrow> ustring" where
  \<comment> \<open>\<open>s.upper()\<close>\<close>
  "str_upper s = concat (map upper_char s)"

definition uisspace :: "uchar \<Rightarrow> bool" where
  \<comment> \<open>\<open>isspace\<close> on the code points of an uppercase form\<close>
  "uisspace u = (case u of Latin1 c \<Rightarrow> isspace c | _ \<Rightarrow> False)"

definition ustr_strip :: "ustring \<Rightarrow> ustring" where
  \<comment> \<open>\<open>s.strip()\<close> on an uppercase form\<close>
  "ustr_strip s = rev (dropWhile uisspace (rev (dropWhile uisspace s)))"

definition str_isdigit :: "string \<Rightarrow> bool" where
  \<comment> \<open>\<open>s.isdigit()\<close>: at least one character, and all of them digits\<close>
  "str_isdigit s = (s \<noteq> [] \<and> list_all isdigit s)"

definition str_strip :: "string \<Rightarrow> string" where
  \<comment> \<open>\<open>s.strip()\<close>\<close>
  "str_strip s = rev (dropWhile isspace (rev (dropWhile isspace s)))"

definition str_in :: "'a list \<Rightarrow> 'a list \<Rightarrow> bool" where
  \<comment> \<open>\<open>k in s\<close>: \<open>k\<close> occurs in \<open>s\<close> as a contiguous run\<close>
  "str_in k s = sublist k s"

definition str_startswith :: "string \<Rightarrow> string \<Rightarrow> bool" where
  \<comment> \<open>\<open>s.startswith(p)\<close>\<close>
  "str_startswith s p = prefix p s"

fun str_split_on :: "char \<Rightarrow> string \<Rightarrow> string list" where
  \<comment> \<open>\<open>s.split(d)\<close> for a one-character separator: empty fields are kept\<close>
  "str_split_on d [] = [[]]"
| "str_split_on d (c # cs) =
     (if c = d then [] # str_split_on d cs
      else (case str_split_on d cs of
              [] \<Rightarrow> [[c]]
            | w # ws \<Rightarrow> (c # w) # ws))"

fun split_words :: "string \<Rightarrow> string \<Rightarrow> string list" where
  \<comment> \<open>the scan of \<open>s.split()\<close>; the first argument is the word being read\<close>
  "split_words cur [] = (if cur = [] then [] else [cur])"
| "split_words cur (c # cs) =
     (if isspace c then (if cur = [] then split_words [] cs else cur # split_words [] cs)
      else split_words (cur @ [c]) cs)"

definition str_split :: "string \<Rightarrow> string list" where
  \<comment> \<open>\<open>s.split()\<close>: the maximal runs of non-whitespace characters\<close>
  "str_split s = split_words [] s"

fun str_join :: "string list \<Rightarrow> string" where
  \<comment> \<open>\<open>' '.join(ts)\<close>\<close>
  "str_join [] = []"
| "str_join [t] = t"
| "str_join (t # ts) = t @ CHR '' '' # str_join ts"

subsection \<open>The regular expressions of the source\<close>

definition artifact_chars :: string where
  \<comment> \<open>the character class of \<open>r'[|\[\](){}\_]'\<close>\<close>
  "artifact_chars = ''|[](){}_''"

definition re_sub_artifacts :: "string \<Rightarrow> string" where
  \<comment> \<open>\<open>re.sub(r'[|\[\](){}\_]', '', token)\<close>\<close>
  "re_sub_artifacts token = filter (\<lambda>c. c \<notin> set artifact_chars) token"

function re_sub_spaces :: "string \<Rightarrow> string" where
  \<comment> \<open>\<open>re.sub(r'\s+', ' ', s)\<close>: every maximal run of whitespace becomes one space\<close>
  "re_sub_spaces [] = []"
| "re_sub_spaces (c # cs) =
     (if isspace c then CHR '' '' # re_sub_spaces (dropWhile isspace cs)
      else c # re_sub_spaces cs)"
  by pat_completeness auto
termination
  by (relation "measure length") (auto simp: le_imp_less_Suc length_dropWhile_le)

definition re_sep :: "char \<Rightarrow> bool" where
  \<comment> \<open>the character class \<open>[|\[\s]\<close>\<close>
  "re_sep c = (c = CHR ''|'' \<or> c = CHR ''['' \<or> isspace c)"

definition re_dot :: "char \<Rightarrow> bool" where
  \<comment> \<open>\<open>.\<close> without the DOTALL flag: any character but the line feed\<close>
  "re_dot c = (c \<noteq> CHR 0x0A)"

definition greedy :: "nat \<Rightarrow> (char \<Rightarrow> bool) \<Rightarrow> string \<Rightarrow> (string \<times> string) list" where
  \<comment> \<open>a greedy repetition of a character class, at least \<open>lo\<close> times: the ways to split
      the text into what the repetition takes and what it leaves, in the order in which
      the backtracking matcher tries them (the longest first)\<close>
  "greedy lo P s =
     map (\<lambda>n. (take n s, drop n s)) (rev [lo ..< Suc (length (takeWhile P s))])"

definition re_match_row :: "string \<Rightarrow> (string \<times> string) option" where
  \<comment> \<open>\<open>re.match(r'^(\d+)\s*[|\[\s]+(.+)', line)\<close>: the groups 1 and 2 of the first
      way to match that the backtracking search finds, or None\<close>
  "re_match_row line =
     (case [(g1, g2). (g1, r1) \<leftarrow> greedy 1 re_digit line,
                      (sp, r2) \<leftarrow> greedy 0 isspace r1,
                      (se, r3) \<leftarrow> greedy 1 re_sep r2,
                      (g2, r4) \<leftarrow> greedy 1 re_dot r3] of
        [] \<Rightarrow> None
      | m # _ \<Rightarrow> Some m)"

subsection \<open>clean\_ocr\_artifacts\<close>

definition clean_ocr_artifacts :: "string \<Rightarrow> error + string" where
  "clean_ocr_artifacts token =
     (let cleaned = re_sub_artifacts token in
      case (if str_startswith cleaned ''l'' \<and> length cleaned > 1
            then (case py_index cleaned 1 of
                    Inl e \<Rightarrow> Inl e
                  | Inr c \<Rightarrow> Inr (if isupper c then drop 1 cleaned else cleaned))
            else Inr cleaned) of
        Inl e \<Rightarrow> Inl e
      | Inr cleaned \<Rightarrow>
          (let cleaned = (if str_startswith cleaned ''/'' \<and> length cleaned > 1
                          then drop 1 cleaned else cleaned)
           in Inr (str_strip cleaned)))"


subsection \<open>is\_valid\_point\_name\<close>

definition is_valid_point_name :: "string \<Rightarrow> bool" where
  "is_valid_point_name name =
     (if name = [] \<or> str_strip name = [] then False
      else let name_upper = ustr_strip (str_upper name) in
        if str_in (ustr ''SPARE'') name_upper then False
        else if length (str_strip name) \<le> 1 then False
        else if \<not> list_ex isalpha name then False
        else True)"

subsection \<open>extract\_point\_name\_from\_section\<close>

definition MAX_NAME_TOKENS :: nat where
  "MAX_NAME_TOKENS = 10"

definition MAX_SMALL_NUMBER_LENGTH :: nat where
  "MAX_SMALL_NUMBER_LENGTH = 2"

definition stop_keywords :: "string list" where
  "stop_keywords =
     [''CLOSE'', ''OPEN'', ''NORMAL'', ''ALARM'', ''AUTO'', ''SOLID'', ''MANUAL'',
      ''RK'', ''DI'', ''[or'', ''[ot'', ''[pI'', ''[oI'', ''[dI'']"

definition hits_keyword :: "string \<Rightarrow> bool" where
  \<comment> \<open>\<open>any(keyword in token.upper() for keyword in stop_keywords)\<close>\<close>
  "hits_keyword token = list_ex (\<lambda>keyword. str_in (ustr keyword) (str_upper token)) stop_keywords"

fun collect_tokens :: "string list \<Rightarrow> string list \<Rightarrow> error + string list" where
  \<comment> \<open>the loop over the tokens; the first argument is \<open>name_tokens\<close>, and every
      \<open>break\<close> returns it\<close>
  "collect_tokens name_tokens [] = Inr name_tokens"
| "collect_tokens name_tokens (token # tokens) =
     (if hits_keyword token then Inr name_tokens
      else case clean_ocr_artifacts token of
        Inl e \<Rightarrow> Inl e
      | Inr cleaned \<Rightarrow>
          if cleaned = [] \<or> length cleaned < 1 then collect_tokens name_tokens tokens
          else if str_isdigit cleaned \<and> length name_tokens > 0 then
            (if length cleaned \<le> MAX_SMALL_NUMBER_LENGTH
             then Inr (name_tokens @ [cleaned])
             else Inr name_tokens)
          else if length (name_tokens @ [cleaned]) \<ge> MAX_NAME_TOKENS
            then Inr (name_tokens @ [cleaned])
            else collect_tokens (name_tokens @ [cleaned]) tokens)"

definition extract_point_name_from_section :: "string \<Rightarrow> error + string" where
  "extract_point_name_from_section text =
     (let tokens = str_split text in
      if tokens = [] then Inr []
      else case collect_tokens [] tokens of
        Inl e \<Rightarrow> Inl e
      | Inr name_tokens \<Rightarrow> Inr (re_sub_spaces (str_strip (str_join name_tokens))))"

subsection \<open>extract\_point\_names\_from\_text\<close>

record scan_state =
  point_names :: "string list"
  in_table :: bool

definition skip_markers :: "string list" where
  "skip_markers = [''PLOT BY:'', ''.dwg'', ''DIAG'', ''NOTE'', ''COEFFICIENT'', ''OFFSET'']"

definition process_line :: "scan_state \<Rightarrow> string \<Rightarrow> error + scan_state" where
  \<comment> \<open>the body of the loop over the lines; every \<open>continue\<close> returns the state\<close>
  "process_line st raw_line =
     (let line = str_strip raw_line in
      if line = [] then Inr st
      else if str_in (ustr ''POINT NAME'') (str_upper line) then Inr (st\<lparr>in_table := True\<rparr>)
      else if list_ex (\<lambda>skip. str_in skip line) skip_markers then Inr st
      else case re_match_row line of
        None \<Rightarrow> Inr st
      | Some (g1, g2) \<Rightarrow>
          (let remainder = str_strip g2;
               sections = str_split_on (CHR ''|'') remainder
           in case py_index sections 0 of
             Inl e \<Rightarrow> Inl e
           | Inr section \<Rightarrow>
               (let first_section = str_strip section
                in case extract_point_name_from_section first_section of
                  Inl e \<Rightarrow> Inl e
                | Inr point_name \<Rightarrow>
                    if point_name \<noteq> [] \<and> is_valid_point_name point_name
                    then Inr (st\<lparr>point_names := point_names st @ [point_name]\<rparr>)
                    else Inr st)))"

fun scan_lines :: "scan_state \<Rightarrow> string list \<Rightarrow> error + scan_state" where
  "scan_lines st [] = Inr st"
| "scan_lines st (line # lines) =
     (case process_line st line of
        Inl e \<Rightarrow> Inl e
      | Inr st' \<Rightarrow> scan_lines st' lines)"

definition extract_point_names_from_text :: "string \<Rightarrow> error + string list" where
  "extract_point_names_from_text text =
     (case scan_lines \<lparr>point_names = [], in_table = False\<rparr> (str_split_on (CHR 0x0A) text) of
        Inl e \<Rightarrow> Inl e
      | Inr st \<Rightarrow> Inr (point_names st))"

section \<open>Auxiliary facts\<close>

subsection \<open>Characters, trimming and substrings\<close>

lemma upper_char_not_lower: "Latin1 x \<in> set (upper_char c) \<Longrightarrow> x \<notin> set ascii_lowercase"
  by (simp add: upper_char_def ascii_lowercase_def ascii_uppercase_def
      latin1_lowercase_def latin1_uppercase_def split: if_splits)











lemma str_upper_no_lowercase:
  assumes "str_in (ustr k) (str_upper s)" and "c \<in> set k"
  shows "c \<notin> set ascii_lowercase"
proof -
  from assms(1) have "set (ustr k) \<subseteq> set (str_upper s)"
    unfolding str_in_def by (rule set_mono_sublist)
  with assms(2) have "Latin1 c \<in> set (str_upper s)"
    by (auto simp: ustr_def)
  then obtain x where "Latin1 c \<in> set (upper_char x)"
    by (auto simp: str_upper_def)
  then show ?thesis
    by (rule upper_char_not_lower)
qed

lemma bracket_markers_dead:
  "\<not> str_in (ustr ''[or'') (str_upper s)" "\<not> str_in (ustr ''[ot'') (str_upper s)"
  "\<not> str_in (ustr ''[pI'') (str_upper s)" "\<not> str_in (ustr ''[oI'') (str_upper s)"
  "\<not> str_in (ustr ''[dI'') (str_upper s)"
  using str_upper_no_lowercase [of "''[or''" s "CHR ''o''"]
    str_upper_no_lowercase [of "''[ot''" s "CHR ''o''"]
    str_upper_no_lowercase [of "''[pI''" s "CHR ''p''"]
    str_upper_no_lowercase [of "''[oI''" s "CHR ''o''"]
    str_upper_no_lowercase [of "''[dI''" s "CHR ''d''"]
  by (auto simp: ascii_lowercase_def)

subsection \<open>The token cleaner\<close>



subsection \<open>Splitting and joining\<close>











subsection \<open>The loop over the tokens\<close>








subsection \<open>The name of one row\<close>






subsection \<open>The scan of the document\<close>












subsection \<open>The functions on text beyond ASCII\<close>

text \<open>
  The character classes decide the result on Latin-1 text: a name of accented capitals is
  valid, the sharp s uppercases to SS (so "sharp-s pare valve" holds SPARE), a no-break
  space separates tokens and the row number from the name, an accented capital after a
  leading "l" makes the cleaner drop the "l", and a superscript digit ends a name as a
  short number does.
\<close>

lemma latin1_examples:
  "extract_point_names_from_text (''1 | '' @ [CHR 0xC9, CHR 0xC9]) = Inr [[CHR 0xC9, CHR 0xC9]]"
  "extract_point_names_from_text (''1 | '' @ [CHR 0xDF] @ ''pare valve'') = Inr []"
  "extract_point_names_from_text (''1'' @ [CHR 0xA0] @ ''Pump'' @ [CHR 0xA0] @ ''A'')
     = Inr [''Pump A'']"
  "clean_ocr_artifacts (''l'' @ [CHR 0xC9]) = Inr [CHR 0xC9]"
  "clean_ocr_artifacts ([CHR 0xA0] @ ''A'' @ [CHR 0xA0]) = Inr ''A''"
  "extract_point_name_from_section (''Pump '' @ [CHR 0xB2] @ '' Run'')
     = Inr (''Pump '' @ [CHR 0xB2])"
  "str_upper [CHR 0xB5, CHR 0xFF, CHR 0xDF, CHR 0xE9]
     = [Capital_Mu, Capital_Y_Diaeresis, Latin1 (CHR ''S''), Latin1 (CHR ''S''),
        Latin1 (CHR 0xC9)]"
  by code_simp+

section \<open>The claims of the specification\<close>

text \<open>
  C1, as stated, fails: for the three lines "NO. | POINT NAME | STATE",
  "1 | Pump 1 Run Status | CLOSE" and "2 | Spare", the result is not the one-element
  sequence ["Pump 1 Run Status"].
\<close>

theorem document_example_counterexample:
  "extract_point_names_from_text
     ''NO. | POINT NAME | STATE\<newline>1 | Pump 1 Run Status | CLOSE\<newline>2 | Spare''
   \<noteq> Inr [''Pump 1 Run Status'']"
  by code_simp

text \<open>
  C1, amended: for that text \<open>extract_point_names_from_text\<close> returns exactly
  ["Pump 1"]. The header line is skipped, the "Spare" row is rejected by the validator,
  and in the row of the pump the short number "1" follows a collected token, so it is
  appended and ends the name.
\<close>

theorem document_example:
  "extract_point_names_from_text
     ''NO. | POINT NAME | STATE\<newline>1 | Pump 1 Run Status | CLOSE\<newline>2 | Spare''
   = Inr [''Pump 1'']"
  by code_simp



text \<open>
  C3: the stop check looks for every keyword in the uppercased token, so it finds
  exactly the nine uppercase keywords; the bracketed markers of the list contain lowercase
  letters and are never found. The token "[or" does not stop the iteration: it is cleaned
  to "or" and appended.
\<close>

theorem bracket_marker_not_matched:
  "hits_keyword token =
     list_ex (\<lambda>keyword. str_in (ustr keyword) (str_upper token))
       [''CLOSE'', ''OPEN'', ''NORMAL'', ''ALARM'', ''AUTO'', ''SOLID'', ''MANUAL'', ''RK'', ''DI''] \<and>
   hits_keyword ''[or'' = False \<and>
   extract_point_name_from_section ''Pump [or 125'' = Inr ''Pump or''"
proof -
  have g: "hits_keyword token =
     list_ex (\<lambda>keyword. str_in (ustr keyword) (str_upper token))
       [''CLOSE'', ''OPEN'', ''NORMAL'', ''ALARM'', ''AUTO'', ''SOLID'', ''MANUAL'', ''RK'', ''DI'']"
    by (simp add: hits_keyword_def stop_keywords_def bracket_markers_dead)
  have e: "hits_keyword ''[or'' = False"
    "extract_point_name_from_section ''Pump [or 125'' = Inr ''Pump or''"
    by code_simp+
  from g e show ?thesis by blast
qed














end
